theory Spec2Isabelle
  imports Main
begin

section \<open>JavaScript values the component handles\<close>

text \<open>
  A property of a JavaScript object is absent, present with the value \<open>undefined\<close>, or
  present with a value. Object spread copies every own property of its operand, also one
  whose value is \<open>undefined\<close>; a property read yields \<open>undefined\<close> for an absent
  property. \<open>None\<close> stands for \<open>undefined\<close> wherever a value is read.
\<close>

datatype 'a field = Absent | Undefined | Value 'a

fun read_field :: "'a field \<Rightarrow> 'a option" where
  "read_field Absent = None"
| "read_field Undefined = None"
| "read_field (Value v) = Some v"

text \<open>One key of \<open>{...d, ...u}\<close>: the later operand wins when it has the key at all.\<close>

fun spread_field :: "'a field \<Rightarrow> 'a field \<Rightarrow> 'a field" where
  "spread_field d Absent = d"
| "spread_field d Undefined = Undefined"
| "spread_field d (Value v) = Value v"

text \<open>\<open>!x\<close> for \<open>x\<close> a boolean or \<open>undefined\<close>, and \<open>String(b)\<close> for a boolean.\<close>

fun js_not :: "bool option \<Rightarrow> bool" where
  "js_not None = True"
| "js_not (Some b) = (\<not> b)"

definition js_String :: "bool \<Rightarrow> string" where
  "js_String b = (if b then ''true'' else ''false'')"

text \<open>
  \<open>String.prototype.toUpperCase\<close> on ASCII text: the letters a to z (codes 97 to 122)
  move to A to Z, every other character stays.
\<close>

definition upper_char :: "char \<Rightarrow> char" where
  "upper_char c =
     (let n = (of_char c :: nat) in if 97 \<le> n \<and> n \<le> 122 then char_of (n - 32) else c)"

definition toUpperCase :: "string \<Rightarrow> string" where
  "toUpperCase s = map upper_char s"

section \<open>Arguments and defaults (index.ts)\<close>

text \<open>
  The interface \<open>ChartMuseumArgs\<close>. Every top-level key is optional. The interface
  declares the key \<open>type\<close> of the service object as required; the types are erased at
  run time, so the model lets the key be absent and says what the code does then.
  \<open>replicas\<close> is passed through and never computed with.
\<close>

record ServiceObj =
  svc_type :: "string field"

record ChartMuseumArgs =
  namespace :: "string field"
  replicas :: "int field"
  api :: "bool field"
  metrics :: "bool field"
  service :: "ServiceObj field"

definition ChartMuseumDefaults :: ChartMuseumArgs where
  "ChartMuseumDefaults =
     \<lparr>namespace = Value ''chartmuseum'',
      replicas = Value 1,
      api = Value False,
      metrics = Value False,
      service = Value \<lparr>svc_type = Value ''ClusterIP''\<rparr>\<rparr>"

text \<open>
  \<open>{...ChartMuseumDefaults, ...args}\<close>, key by key at the top level only. \<open>args\<close> is
  optional: spreading \<open>undefined\<close> adds no key.
\<close>

definition spread :: "ChartMuseumArgs \<Rightarrow> ChartMuseumArgs option \<Rightarrow> ChartMuseumArgs" where
  "spread d a =
     (case a of
        None \<Rightarrow> d
      | Some u \<Rightarrow>
          \<lparr>namespace = spread_field (namespace d) (namespace u),
           replicas = spread_field (replicas d) (replicas u),
           api = spread_field (api d) (api u),
           metrics = spread_field (metrics d) (metrics u),
           service = spread_field (service d) (service u)\<rparr>)"

text \<open>\<open>this.args.service?.type\<close>: \<open>undefined\<close> when the service object is.\<close>

definition service_type :: "'a ChartMuseumArgs_scheme \<Rightarrow> string option" where
  "service_type a =
     (case read_field (service a) of None \<Rightarrow> None | Some so \<Rightarrow> read_field (svc_type so))"

section \<open>Declared resources\<close>

text \<open>
  Each \<open>new\<close> of a resource class registers one resource with the engine. A resource
  is identified by its class and its name. A string input is a literal, an output of a
  declared resource that the engine resolves later, or the base64 encoding applied to
  such an output (the encoding itself is not evaluated here).
\<close>

datatype kind =
  ChartMuseumComponent | Namespace | Bucket | User | UserPolicy | AccessKey
  | Secret | Deployment | Service

type_synonym urn = "kind \<times> string"

datatype ostring = Lit string | Out urn string | Base64 ostring

type_synonym labels = "(string \<times> string) list"

record ObjectMeta =
  meta_name :: "ostring option"
  meta_namespace :: "ostring option"
  meta_labels :: "labels option"

record Statement =
  Sid :: string
  Effect :: string
  Action :: "string list"
  Resource :: string

record PolicyDocument =
  Version :: string
  Statements :: "Statement list"

datatype EnvVar =
  EnvValue string ostring
  | EnvSecretKeyRef string ostring string

fun env_name :: "EnvVar \<Rightarrow> string" where
  "env_name (EnvValue n v) = n"
| "env_name (EnvSecretKeyRef n s k) = n"

record Probe =
  httpGet_path :: string
  httpGet_port :: string
  failureThreshold :: nat
  initialDelaySeconds :: nat
  periodSeconds :: nat
  successThreshold :: nat
  timeoutSeconds :: nat

record Container =
  container_name :: string
  image :: string
  imagePullPolicy :: string
  env :: "EnvVar list"
  container_args :: "string list"
  container_ports :: "(string \<times> nat) list"
  livenessProbe :: Probe
  readinessProbe :: Probe
  volumeMounts :: "(string \<times> string) list"

record DeploymentArgs =
  dep_metadata :: ObjectMeta
  dep_matchLabels :: labels
  dep_replicas :: "int option"
  dep_maxUnavailable :: nat
  dep_strategy_type :: string
  dep_template_metadata :: ObjectMeta
  dep_fsGroup :: nat
  dep_containers :: "Container list"
  dep_volumes :: "string list"

record ServicePort =
  port :: nat
  targetPort :: string
  protocol :: string
  port_name :: string

record ServiceArgs =
  srv_metadata :: ObjectMeta
  srv_type :: "string option"
  srv_ports :: "ServicePort list"
  srv_selector :: labels

text \<open>
  The inputs of a resource, per class. The policy of a \<open>UserPolicy\<close> is
  \<open>output.apply(callback)\<close>: the output the callback reads, and the callback.
\<close>

datatype inputs =
  ComponentInputs
  | NamespaceInputs ObjectMeta
  | BucketInputs
  | UserInputs string
  | UserPolicyInputs ostring ostring "string \<Rightarrow> PolicyDocument"
  | AccessKeyInputs ostring
  | SecretInputs ObjectMeta "(string \<times> ostring) list"
  | DeploymentInputs DeploymentArgs
  | ServiceInputs ServiceArgs

record resource =
  kind :: kind
  rname :: string
  parent :: "urn option"
  dependsOn :: "urn list"
  inputs :: inputs

definition urn_of :: "resource \<Rightarrow> urn" where
  "urn_of r = (kind r, rname r)"

text \<open>The engine's registry, in declaration order.\<close>

definition register :: "resource \<Rightarrow> resource list \<Rightarrow> resource list" where
  "register r s = s @ [r]"

text \<open>
  The errors a constructor call ends with: \<open>RunError\<close> with its message, thrown by the
  constructor itself; \<open>TypeError\<close>, thrown by a read through \<open>undefined\<close>;
  \<open>ResourceError\<close>, thrown by the resource base class for an empty resource name.
\<close>

datatype error = RunError string | TypeError | ResourceError


section \<open>The component (index.ts)\<close>

text \<open>The fields the constructor assigns on \<open>this\<close>; a resource field holds the declared resource.\<close>

record ChartMuseum =
  this_deployment :: resource
  this_namespace :: resource
  this_service :: resource
  this_secret :: resource
  this_bucket :: resource
  cloudProvider :: string
  cloudProviderRegion :: string
  this_name :: string
  this_args :: ChartMuseumArgs
  this_api :: string
  this_metrics :: string

definition labels_of :: "string \<Rightarrow> labels" where
  "labels_of name = [(''app'', ''chartmuseum''), (''release'', name)]"

text \<open>
  \<open>super("jaxxstorm:chartmuseum", name, {}, opts)\<close>. The caller's \<open>opts\<close> go to the
  engine as they are and are not part of the model: the component has no parent among the
  resources of its own invocation. The base class refuses an empty name: it throws
  \<open>ResourceError\<close> before the resource is registered, which the constructors below
  write out as their first test.
\<close>

definition component_resource :: "string \<Rightarrow> resource" where
  "component_resource name =
     \<lparr>kind = ChartMuseumComponent, rname = name, parent = None, dependsOn = [],
      inputs = ComponentInputs\<rparr>"

definition namespace_resource :: "string \<Rightarrow> ChartMuseumArgs \<Rightarrow> labels \<Rightarrow> urn \<Rightarrow> resource" where
  "namespace_resource name args labels this =
     \<lparr>kind = Namespace, rname = ''chartmuseum-'' @ name @ ''-namespace'',
      parent = Some this, dependsOn = [],
      inputs = NamespaceInputs
        \<lparr>meta_name = map_option Lit (read_field (namespace args)),
         meta_namespace = None,
         meta_labels = Some labels\<rparr>\<rparr>"

definition bucket_resource :: "string \<Rightarrow> urn \<Rightarrow> resource" where
  "bucket_resource name this =
     \<lparr>kind = Bucket, rname = ''chartmuseum-'' @ name @ ''-bucket'',
      parent = Some this, dependsOn = [], inputs = BucketInputs\<rparr>"

definition iam_user :: "string \<Rightarrow> urn \<Rightarrow> resource" where
  "iam_user name this =
     \<lparr>kind = User, rname = ''chartmuseum-'' @ name @ ''-iam-user'',
      parent = Some this, dependsOn = [], inputs = UserInputs ''/chartmuseum/''\<rparr>"

text \<open>
  The callback of \<open>this.bucket.bucket.apply\<close>: the object that \<open>JSON.stringify\<close>
  serialises, for the bucket name the engine resolved.
\<close>

definition policy_document :: "string \<Rightarrow> PolicyDocument" where
  "policy_document bucketName =
     \<lparr>Version = ''2012-10-17'',
      Statements =
        [\<lparr>Sid = ''AllowListObjects'', Effect = ''Allow'',
          Action = [''s3:ListBucket''],
          Resource = ''arn:aws:s3:::'' @ bucketName\<rparr>,
         \<lparr>Sid = ''AllowObjectsCRUD'', Effect = ''Allow'',
          Action = [''s3:DeleteObject'', ''s3:GetObject'', ''s3:PutObject''],
          Resource = ''arn:aws:s3:::'' @ bucketName @ ''/*''\<rparr>]\<rparr>"

definition iam_policy :: "string \<Rightarrow> resource \<Rightarrow> resource \<Rightarrow> resource" where
  "iam_policy name iamUser bucket =
     \<lparr>kind = UserPolicy, rname = ''chartmuseum-'' @ name @ ''-iam-policy'',
      parent = Some (urn_of iamUser), dependsOn = [],
      inputs = UserPolicyInputs (Out (urn_of iamUser) ''name'')
                 (Out (urn_of bucket) ''bucket'') policy_document\<rparr>"

definition access_key :: "string \<Rightarrow> resource \<Rightarrow> resource" where
  "access_key name iamUser =
     \<lparr>kind = AccessKey, rname = ''chartmuseum-'' @ name @ ''-iam-accesskey'',
      parent = Some (urn_of iamUser), dependsOn = [],
      inputs = AccessKeyInputs (Out (urn_of iamUser) ''name'')\<rparr>"

definition secret_resource :: "string \<Rightarrow> labels \<Rightarrow> resource \<Rightarrow> resource \<Rightarrow> resource" where
  "secret_resource name labels ns accessKey =
     \<lparr>kind = Secret, rname = ''chartmuseum-'' @ name @ ''-secret'',
      parent = Some (urn_of ns), dependsOn = [],
      inputs = SecretInputs
        \<lparr>meta_name = None,
         meta_namespace = Some (Out (urn_of ns) ''metadata.name''),
         meta_labels = Some labels\<rparr>
        [(''AWS_ACCESS_KEY_ID'', Base64 (Out (urn_of accessKey) ''id'')),
         (''AWS_SECRET_ACCESS_KEY'', Base64 (Out (urn_of accessKey) ''secret''))]\<rparr>"

text \<open>The \<open>env\<close> array of the container, in the order of the source.\<close>

definition deployment_env ::
  "string \<Rightarrow> string \<Rightarrow> string \<Rightarrow> string \<Rightarrow> resource \<Rightarrow> resource \<Rightarrow> EnvVar list" where
  "deployment_env api_s metrics_s provider_id provider_region bucket secret =
     [EnvValue ''DISABLE_API'' (Lit api_s),
      EnvValue ''DISABLE_METRICS'' (Lit metrics_s),
      EnvValue ''LOG_JSON'' (Lit ''true''),
      EnvValue ''PROV_POST_FORM_FIELD_NAME'' (Lit ''prov''),
      EnvValue ''STORAGE'' (Lit provider_id),
      EnvValue (''STORAGE_'' @ toUpperCase provider_id @ ''_REGION'') (Lit provider_region),
      EnvValue (''STORAGE_'' @ toUpperCase provider_id @ ''_BUCKET'')
        (Out (urn_of bucket) ''bucket''),
      EnvSecretKeyRef ''AWS_ACCESS_KEY_ID''
        (Out (urn_of secret) ''metadata.name'') ''AWS_ACCESS_KEY_ID'',
      EnvSecretKeyRef ''AWS_SECRET_ACCESS_KEY''
        (Out (urn_of secret) ''metadata.name'') ''AWS_SECRET_ACCESS_KEY'']"

definition liveness_probe :: Probe where
  "liveness_probe =
     \<lparr>httpGet_path = ''/health'', httpGet_port = ''http'', failureThreshold = 3,
      initialDelaySeconds = 5, periodSeconds = 10, successThreshold = 1,
      timeoutSeconds = 1\<rparr>"

definition readiness_probe :: Probe where
  "readiness_probe =
     \<lparr>httpGet_path = ''/health'', httpGet_port = ''http'', failureThreshold = 3,
      initialDelaySeconds = 5, periodSeconds = 10, successThreshold = 1,
      timeoutSeconds = 1\<rparr>"

definition deployment_resource ::
  "string \<Rightarrow> ChartMuseumArgs \<Rightarrow> labels \<Rightarrow> resource \<Rightarrow> resource \<Rightarrow> EnvVar list \<Rightarrow> resource" where
  "deployment_resource name args labels ns bucket envs =
     \<lparr>kind = Deployment, rname = ''chartmuseum-'' @ name @ ''-deployment'',
      parent = Some (urn_of ns), dependsOn = [urn_of bucket],
      inputs = DeploymentInputs
        \<lparr>dep_metadata =
           \<lparr>meta_name = None,
            meta_namespace = Some (Out (urn_of ns) ''metadata.name''),
            meta_labels = Some labels\<rparr>,
         dep_matchLabels = labels,
         dep_replicas = read_field (replicas args),
         dep_maxUnavailable = 0,
         dep_strategy_type = ''RollingUpdate'',
         dep_template_metadata =
           \<lparr>meta_name = Some (Lit name), meta_namespace = None, meta_labels = Some labels\<rparr>,
         dep_fsGroup = 1000,
         dep_containers =
           [\<lparr>container_name = ''chartmuseum'',
             image = ''chartmuseum/chartmuseum:v0.12.0'',
             imagePullPolicy = ''IfNotPresent'',
             env = envs,
             container_args = [''--port=8080''],
             container_ports = [(''http'', 8080)],
             livenessProbe = liveness_probe,
             readinessProbe = readiness_probe,
             volumeMounts = []\<rparr>],
         dep_volumes = [''storage-volume'']\<rparr>\<rparr>"

definition service_resource :: "string \<Rightarrow> ChartMuseumArgs \<Rightarrow> labels \<Rightarrow> resource \<Rightarrow> resource" where
  "service_resource name args labels ns =
     \<lparr>kind = Service, rname = ''chartmuseum-'' @ name @ ''-service'',
      parent = Some (urn_of ns), dependsOn = [],
      inputs = ServiceInputs
        \<lparr>srv_metadata =
           \<lparr>meta_name = None,
            meta_namespace = Some (Out (urn_of ns) ''metadata.name''),
            meta_labels = Some labels\<rparr>,
         srv_type = service_type args,
         srv_ports =
           [\<lparr>port = 80, targetPort = ''http'', protocol = ''TCP'', port_name = ''http''\<rparr>],
         srv_selector = labels\<rparr>\<rparr>"

text \<open>
  The constructor. \<open>provider\<close> and \<open>region\<close> are the two module constants read with
  \<open>config.require\<close>; \<open>s0\<close> is the registry before the call. The result is the
  component or the error thrown, with the registry as the call leaves it: what was
  declared before a \<open>throw\<close> stays declared. With an empty name \<open>super\<close> throws and
  nothing is declared.
\<close>

definition constructor ::
  "string \<Rightarrow> string \<Rightarrow> string \<Rightarrow> ChartMuseumArgs option \<Rightarrow> resource list
     \<Rightarrow> (error + ChartMuseum) \<times> resource list" where
  "constructor provider region name args s0 =
     (if name = [] then (Inl ResourceError, s0) else
      let this = (ChartMuseumComponent, name);
          s1 = register (component_resource name) s0;
          args' = spread ChartMuseumDefaults args;
          api_s = js_String (js_not (read_field (api args')));
          metrics_s = js_String (js_not (read_field (metrics args')));
          labels = labels_of name;
          ns = namespace_resource name args' labels this;
          s2 = register ns s1
      in if provider = ''aws'' then
           (let bucket = bucket_resource name this;
                s3 = register bucket s2;
                iamUser = iam_user name this;
                s4 = register iamUser s3;
                s5 = register (iam_policy name iamUser bucket) s4;
                accessKey = access_key name iamUser;
                s6 = register accessKey s5;
                secret = secret_resource name labels ns accessKey;
                s7 = register secret s6;
                provider_id = ''amazon'';
                provider_region = region;
                deployment = deployment_resource name args' labels ns bucket
                  (deployment_env api_s metrics_s provider_id provider_region bucket secret);
                s8 = register deployment s7;
                svc = service_resource name args' labels ns;
                s9 = register svc s8
            in (Inr \<lparr>this_deployment = deployment, this_namespace = ns,
                      this_service = svc, this_secret = secret, this_bucket = bucket,
                      cloudProvider = provider_id, cloudProviderRegion = provider_region,
                      this_name = name, this_args = args', this_api = api_s,
                      this_metrics = metrics_s\<rparr>, s9))
         else (Inl (RunError ''Must specify a cloud provider''), s2))"

text \<open>The resources one call declared: the registry after it, without what was there before.\<close>

definition declared :: "resource list \<Rightarrow> 'a \<times> resource list \<Rightarrow> resource list" where
  "declared s0 res = drop (length s0) (snd res)"


section \<open>The second source file (src/unnamed/part 000)\<close>

text \<open>
  The second file declares the same interface with one more key, \<open>storage\<close>, the same
  defaults with a default storage object, and a constructor without credentials. Its
  definitions carry the suffix \<open>_p0\<close>. The interface declares \<open>storage\<close> and its two keys
  as required; where one is missing at run time, reading through it throws a
  \<open>TypeError\<close>.
\<close>

record StorageObj =
  st_cloud :: "string field"
  st_region :: "string field"

record ChartMuseumArgs_p0 = ChartMuseumArgs +
  storage :: "StorageObj field"

definition ChartMuseumDefaults_p0 :: ChartMuseumArgs_p0 where
  "ChartMuseumDefaults_p0 =
     \<lparr>namespace = Value ''chartmuseum'',
      replicas = Value 1,
      api = Value False,
      metrics = Value False,
      service = Value \<lparr>svc_type = Value ''ClusterIP''\<rparr>,
      storage = Value \<lparr>st_cloud = Value ''amazon'', st_region = Value ''us-west-2''\<rparr>\<rparr>"

definition spread_p0 ::
  "ChartMuseumArgs_p0 \<Rightarrow> ChartMuseumArgs_p0 option \<Rightarrow> ChartMuseumArgs_p0" where
  "spread_p0 d a =
     (case a of
        None \<Rightarrow> d
      | Some u \<Rightarrow>
          \<lparr>namespace = spread_field (namespace d) (namespace u),
           replicas = spread_field (replicas d) (replicas u),
           api = spread_field (api d) (api u),
           metrics = spread_field (metrics d) (metrics u),
           service = spread_field (service d) (service u),
           storage = spread_field (storage d) (storage u)\<rparr>)"

record ChartMuseum_p0 =
  p0_deployment :: resource
  p0_namespace :: resource
  p0_service :: resource
  p0_bucket :: resource
  p0_name :: string
  p0_args :: ChartMuseumArgs_p0
  p0_api :: string
  p0_metrics :: string

definition bucket_resource_p0 :: "string \<Rightarrow> urn \<Rightarrow> resource" where
  "bucket_resource_p0 name this =
     \<lparr>kind = Bucket, rname = name @ ''-bucket'',
      parent = Some this, dependsOn = [], inputs = BucketInputs\<rparr>"

definition namespace_resource_p0 ::
  "string \<Rightarrow> ChartMuseumArgs_p0 \<Rightarrow> labels \<Rightarrow> urn \<Rightarrow> resource" where
  "namespace_resource_p0 name args labels this =
     \<lparr>kind = Namespace, rname = name @ ''-namespace'',
      parent = Some this, dependsOn = [],
      inputs = NamespaceInputs
        \<lparr>meta_name = map_option Lit (read_field (namespace args)),
         meta_namespace = None,
         meta_labels = Some labels\<rparr>\<rparr>"

text \<open>
  The \<open>env\<close> array of the second file. \<open>this.args.storage.cloud\<close> throws when the
  storage object is \<open>undefined\<close>, \<open>this.args.storage.region.toUpperCase()\<close> when the
  region is, \<open>this.args.storage.cloud.toUpperCase()\<close> when the cloud is; the entries are
  evaluated in this order.
\<close>

definition deployment_env_p0 ::
  "string \<Rightarrow> string \<Rightarrow> ChartMuseumArgs_p0 \<Rightarrow> resource \<Rightarrow> error + EnvVar list" where
  "deployment_env_p0 api_s metrics_s args bucket =
     (case read_field (storage args) of
        None \<Rightarrow> Inl TypeError
      | Some st \<Rightarrow>
          (case read_field (st_region st) of
             None \<Rightarrow> Inl TypeError
           | Some storage_region \<Rightarrow>
               (case read_field (st_cloud st) of
                  None \<Rightarrow> Inl TypeError
                | Some storage_cloud \<Rightarrow>
                    Inr [EnvValue ''DISABLE_API'' (Lit api_s),
                         EnvValue ''DISABLE_METRICS'' (Lit metrics_s),
                         EnvValue ''LOG_JSON'' (Lit ''true''),
                         EnvValue ''PROV_POST_FORM_FIELD_NAME'' (Lit ''prov''),
                         EnvValue ''STORAGE'' (Lit storage_cloud),
                         EnvValue (''STORAGE_'' @ toUpperCase storage_region @ ''_REGION'')
                           (Lit storage_region),
                         EnvValue (''STORAGE_'' @ toUpperCase storage_cloud @ ''_BUCKET'')
                           (Out (urn_of bucket) ''bucket'')])))"

definition deployment_resource_p0 ::
  "string \<Rightarrow> ChartMuseumArgs_p0 \<Rightarrow> labels \<Rightarrow> resource \<Rightarrow> resource \<Rightarrow> EnvVar list
     \<Rightarrow> resource" where
  "deployment_resource_p0 name args labels ns bucket envs =
     \<lparr>kind = Deployment, rname = name @ ''-deployment'',
      parent = Some (urn_of ns), dependsOn = [urn_of bucket],
      inputs = DeploymentInputs
        \<lparr>dep_metadata =
           \<lparr>meta_name = Some (Lit name),
            meta_namespace = Some (Out (urn_of ns) ''metadata.name''),
            meta_labels = Some labels\<rparr>,
         dep_matchLabels = labels,
         dep_replicas = read_field (replicas args),
         dep_maxUnavailable = 0,
         dep_strategy_type = ''RollingUpdate'',
         dep_template_metadata =
           \<lparr>meta_name = Some (Lit name), meta_namespace = None, meta_labels = Some labels\<rparr>,
         dep_fsGroup = 1000,
         dep_containers =
           [\<lparr>container_name = ''chartmuseum'',
             image = ''chartmuseum/chartmuseum:v0.12.0'',
             imagePullPolicy = ''IfNotPresent'',
             env = envs,
             container_args = [''--port=8080''],
             container_ports = [(''http'', 8080)],
             livenessProbe = liveness_probe,
             readinessProbe = readiness_probe,
             volumeMounts = [(''/storage'', ''storage-volume'')]\<rparr>],
         dep_volumes = [''storage-volume'']\<rparr>\<rparr>"

definition service_resource_p0 ::
  "string \<Rightarrow> ChartMuseumArgs_p0 \<Rightarrow> labels \<Rightarrow> resource \<Rightarrow> resource" where
  "service_resource_p0 name args labels ns =
     \<lparr>kind = Service, rname = name @ ''-service'',
      parent = Some (urn_of ns), dependsOn = [],
      inputs = ServiceInputs
        \<lparr>srv_metadata =
           \<lparr>meta_name = Some (Lit name), meta_namespace = None, meta_labels = Some labels\<rparr>,
         srv_type = service_type args,
         srv_ports =
           [\<lparr>port = 8080, targetPort = ''http'', protocol = ''TCP'', port_name = ''http''\<rparr>],
         srv_selector = labels\<rparr>\<rparr>"

definition constructor_p0 ::
  "string \<Rightarrow> ChartMuseumArgs_p0 option \<Rightarrow> resource list
     \<Rightarrow> (error + ChartMuseum_p0) \<times> resource list" where
  "constructor_p0 name args s0 =
     (if name = [] then (Inl ResourceError, s0) else
      let this = (ChartMuseumComponent, name);
          s1 = register (component_resource name) s0;
          args' = spread_p0 ChartMuseumDefaults_p0 args;
          api_s = js_String (js_not (read_field (api args')));
          metrics_s = js_String (js_not (read_field (metrics args')));
          labels = labels_of name;
          bucket = bucket_resource_p0 name this;
          s2 = register bucket s1;
          ns = namespace_resource_p0 name args' labels this;
          s3 = register ns s2
      in case deployment_env_p0 api_s metrics_s args' bucket of
           Inl e \<Rightarrow> (Inl e, s3)
         | Inr envs \<Rightarrow>
             (let deployment = deployment_resource_p0 name args' labels ns bucket envs;
                  s4 = register deployment s3;
                  svc = service_resource_p0 name args' labels ns;
                  s5 = register svc s4
              in (Inr \<lparr>p0_deployment = deployment, p0_namespace = ns, p0_service = svc,
                        p0_bucket = bucket, p0_name = name, p0_args = args',
                        p0_api = api_s, p0_metrics = metrics_s\<rparr>, s5)))"


section \<open>Reading a declared graph\<close>

definition resources_of_kind :: "kind \<Rightarrow> resource list \<Rightarrow> resource list" where
  "resources_of_kind k g = filter (\<lambda>r. kind r = k) g"

text \<open>The \<open>env\<close> arrays of a deployment's containers; empty for any other resource.\<close>

definition deployment_envs :: "resource \<Rightarrow> EnvVar list" where
  "deployment_envs r =
     (case inputs r of DeploymentInputs d \<Rightarrow> concat (map env (dep_containers d)) | _ \<Rightarrow> [])"

definition env_lookup :: "string \<Rightarrow> EnvVar list \<Rightarrow> EnvVar option" where
  "env_lookup n es = find (\<lambda>e. env_name e = n) es"

text \<open>The shape of a resource: its class, its name, its parent and its dependencies.\<close>

definition shape :: "resource \<Rightarrow> kind \<times> string \<times> urn option \<times> urn list" where
  "shape r = (kind r, rname r, parent r, dependsOn r)"

text \<open>
  Every label set among the inputs of a resource, in the order of the source: the
  metadata labels, then the match labels and template labels of a deployment or the
  selector of a service.
\<close>

definition meta_label_sets :: "ObjectMeta \<Rightarrow> labels list" where
  "meta_label_sets m = (case meta_labels m of None \<Rightarrow> [] | Some l \<Rightarrow> [l])"

definition labels_in :: "resource \<Rightarrow> labels list" where
  "labels_in r =
     (case inputs r of
        NamespaceInputs m \<Rightarrow> meta_label_sets m
      | SecretInputs m d \<Rightarrow> meta_label_sets m
      | DeploymentInputs d \<Rightarrow>
          meta_label_sets (dep_metadata d) @ [dep_matchLabels d]
            @ meta_label_sets (dep_template_metadata d)
      | ServiceInputs sv \<Rightarrow> meta_label_sets (srv_metadata sv) @ [srv_selector sv]
      | _ \<Rightarrow> [])"

text \<open>The ownership edges of a graph, from a resource to its parent.\<close>

definition owner_edges :: "resource list \<Rightarrow> (urn \<times> urn) set" where
  "owner_edges g = {(c, p). \<exists>r \<in> set g. urn_of r = c \<and> parent r = Some p}"

text \<open>The depth the constructor gives each class of resource below the component.\<close>

fun depth :: "urn \<Rightarrow> nat" where
  "depth (ChartMuseumComponent, n) = 0"
| "depth (Namespace, n) = 1"
| "depth (Bucket, n) = 1"
| "depth (User, n) = 1"
| "depth (UserPolicy, n) = 2"
| "depth (AccessKey, n) = 2"
| "depth (Secret, n) = 2"
| "depth (Deployment, n) = 2"
| "depth (Service, n) = 2"


text \<open>
  Following the parent links from a resource, inside the graph \<open>g\<close>, for at most \<open>n\<close>
  steps: the resource without a parent that is reached, if any.
\<close>

fun root_of :: "nat \<Rightarrow> resource list \<Rightarrow> urn \<Rightarrow> urn option" where
  "root_of 0 g u = None"
| "root_of (Suc n) g u =
     (case find (\<lambda>r. urn_of r = u) g of
        None \<Rightarrow> None
      | Some r \<Rightarrow> (case parent r of None \<Rightarrow> Some u | Some p \<Rightarrow> root_of n g p))"

section \<open>What the constructors compute\<close>

text \<open>
  The two constructors in closed form, and the facts the properties below share. The
  first file's constructor succeeds exactly for the provider \<open>aws\<close>.
\<close>

lemma toUpperCase_amazon: "toUpperCase ''amazon'' = ''AMAZON''"
  by code_simp

lemma toUpperCase_us_west_2: "toUpperCase ''us-west-2'' = ''US-WEST-2''"
  by code_simp

lemma constructor_empty_name:
  "constructor provider region [] args s0 = (Inl ResourceError, s0)"
  by (simp add: constructor_def)

lemma constructor_aws:
  "name \<noteq> [] \<Longrightarrow> constructor ''aws'' region name args s0 =
     (let this = (ChartMuseumComponent, name);
          args' = spread ChartMuseumDefaults args;
          api_s = js_String (js_not (read_field (api args')));
          metrics_s = js_String (js_not (read_field (metrics args')));
          labels = labels_of name;
          ns = namespace_resource name args' labels this;
          bucket = bucket_resource name this;
          iamUser = iam_user name this;
          accessKey = access_key name iamUser;
          secret = secret_resource name labels ns accessKey;
          deployment = deployment_resource name args' labels ns bucket
                  (deployment_env api_s metrics_s ''amazon'' region bucket secret);
          svc = service_resource name args' labels ns
      in (Inr \<lparr>this_deployment = deployment, this_namespace = ns,
                      this_service = svc, this_secret = secret, this_bucket = bucket,
                      cloudProvider = ''amazon'', cloudProviderRegion = region,
                      this_name = name, this_args = args', this_api = api_s,
                      this_metrics = metrics_s\<rparr>,
          s0 @ [component_resource name, ns, bucket, iamUser, iam_policy name iamUser bucket,
                accessKey, secret, deployment, svc]))"
  by (simp add: constructor_def Let_def register_def)

lemma constructor_other:
  "provider \<noteq> ''aws'' \<Longrightarrow> name \<noteq> [] \<Longrightarrow> constructor provider region name args s0 =
     (Inl (RunError ''Must specify a cloud provider''),
      s0 @ [component_resource name,
            namespace_resource name (spread ChartMuseumDefaults args) (labels_of name) (ChartMuseumComponent, name)])"
  by (simp add: constructor_def Let_def register_def)

lemma constructor_Inr_aws:
  "constructor provider region name args s0 = (Inr c, s) \<Longrightarrow> provider = ''aws''"
  by (cases "name = []"; cases "provider = ''aws''")
    (simp_all add: constructor_other constructor_empty_name)

lemma constructor_Inr_name:
  "constructor provider region name args s0 = (Inr c, s) \<Longrightarrow> name \<noteq> []"
  by (cases "name = []") (simp_all add: constructor_empty_name)

lemma declared_append: "declared s0 (x, s0 @ g) = g"
  by (simp add: declared_def)

lemmas resource_defs =
  component_resource_def namespace_resource_def bucket_resource_def iam_user_def
  iam_policy_def access_key_def secret_resource_def deployment_resource_def
  service_resource_def urn_of_def

lemma constructor_default_succeeds:
  "name \<noteq> [] \<Longrightarrow> \<exists>c s. constructor ''aws'' region name args s0 = (Inr c, s)"
  by (simp add: constructor_aws Let_def)

lemma constructor_p0_Inr:
  assumes "constructor_p0 name args s0 = (Inr c, s)"
  shows "\<exists>envs. deployment_env_p0 (p0_api c) (p0_metrics c) (p0_args c) (p0_bucket c) = Inr envs
         \<and> p0_args c = spread_p0 ChartMuseumDefaults_p0 args
         \<and> p0_bucket c = bucket_resource_p0 name (ChartMuseumComponent, name)
         \<and> p0_namespace c = namespace_resource_p0 name (p0_args c) (labels_of name) (ChartMuseumComponent, name)
         \<and> p0_deployment c = deployment_resource_p0 name (p0_args c) (labels_of name)
               (p0_namespace c) (p0_bucket c) envs
         \<and> p0_service c = service_resource_p0 name (p0_args c) (labels_of name) (p0_namespace c)
         \<and> s = s0 @ [component_resource name, p0_bucket c, p0_namespace c, p0_deployment c,
                      p0_service c]"
  using assms
  by (auto simp add: constructor_p0_def Let_def register_def split: sum.splits if_splits)

lemma constructor_p0_default:
  "name \<noteq> [] \<Longrightarrow> constructor_p0 name None s0 =
     (let this = (ChartMuseumComponent, name);
          labels = labels_of name;
          bucket = bucket_resource_p0 name this;
          ns = namespace_resource_p0 name ChartMuseumDefaults_p0 labels this;
          deployment = deployment_resource_p0 name ChartMuseumDefaults_p0 labels ns bucket
            [EnvValue ''DISABLE_API'' (Lit ''true''),
             EnvValue ''DISABLE_METRICS'' (Lit ''true''),
             EnvValue ''LOG_JSON'' (Lit ''true''),
             EnvValue ''PROV_POST_FORM_FIELD_NAME'' (Lit ''prov''),
             EnvValue ''STORAGE'' (Lit ''amazon''),
             EnvValue ''STORAGE_US-WEST-2_REGION'' (Lit ''us-west-2''),
             EnvValue ''STORAGE_AMAZON_BUCKET'' (Out (urn_of bucket) ''bucket'')];
          svc = service_resource_p0 name ChartMuseumDefaults_p0 labels ns
      in (Inr \<lparr>p0_deployment = deployment, p0_namespace = ns, p0_service = svc,
                p0_bucket = bucket, p0_name = name, p0_args = ChartMuseumDefaults_p0,
                p0_api = ''true'', p0_metrics = ''true''\<rparr>,
          s0 @ [component_resource name, bucket, ns, deployment, svc]))"
  by (simp add: constructor_p0_def Let_def register_def spread_p0_def deployment_env_p0_def
      ChartMuseumDefaults_p0_def js_String_def toUpperCase_amazon toUpperCase_us_west_2)

lemma spread_field_eq: "spread_field d u = (if u = Absent then d else u)"
  by (cases u) simp_all

lemma acyclic_by_depth:
  assumes "\<forall>r \<in> set g. \<forall>p. parent r = Some p \<longrightarrow> depth p < depth (urn_of r)"
  shows "acyclic (owner_edges g)"
proof -
  have "owner_edges g \<subseteq> (measure depth)\<inverse>"
    using assms by (auto simp add: owner_edges_def)
  moreover have "acyclic ((measure depth)\<inverse>)"
    by (simp add: wf_acyclic)
  ultimately show ?thesis
    by (rule acyclic_subset [rotated])
qed

section \<open>Properties\<close>

subsection \<open>C1: names of the region and bucket variables\<close>

text \<open>
  In the first file the two names are built from the provider identifier \<open>amazon\<close>.
\<close>

lemma storage_env_names:
  assumes "constructor provider region name args s0 = (Inr c, s)"
  shows "map env_name (deployment_envs (this_deployment c))
     = [''DISABLE_API'', ''DISABLE_METRICS'', ''LOG_JSON'', ''PROV_POST_FORM_FIELD_NAME'',
        ''STORAGE'', ''STORAGE_AMAZON_REGION'', ''STORAGE_AMAZON_BUCKET'',
        ''AWS_ACCESS_KEY_ID'', ''AWS_SECRET_ACCESS_KEY'']"
proof -
  have p: "provider = ''aws''" using assms by (rule constructor_Inr_aws)
  have n: "name \<noteq> []" using assms by (rule constructor_Inr_name)
  from assms show ?thesis unfolding p
    by (auto simp add: constructor_aws [OF n] Let_def deployment_envs_def deployment_resource_def
        deployment_env_def toUpperCase_amazon)
qed

text \<open>
  Claim C1: in every emitted environment list the region and bucket variables are named
  \<open>STORAGE_<PROVIDER>_REGION\<close> and \<open>STORAGE_<PROVIDER>_BUCKET\<close>, with the provider
  identifier in upper case. The second file builds the name of the region variable from
  the region, not from the provider: called with the name \<open>cm\<close> and no arguments, so
  that the defaults \<open>amazon\<close> and \<open>us-west-2\<close> apply, it emits
  \<open>STORAGE_US-WEST-2_REGION\<close> where the claim asks for \<open>STORAGE_AMAZON_REGION\<close>. The
  bucket variable beside it is named after the provider.
\<close>

theorem region_variable_named_after_region_p0:
  "map env_name (concat (map deployment_envs
       (declared [] (constructor_p0 ''cm'' None []))))
     = [''DISABLE_API'', ''DISABLE_METRICS'', ''LOG_JSON'', ''PROV_POST_FORM_FIELD_NAME'',
        ''STORAGE'', ''STORAGE_US-WEST-2_REGION'', ''STORAGE_AMAZON_BUCKET'']"
  by (simp add: constructor_p0_default declared_def Let_def deployment_envs_def
      component_resource_def bucket_resource_p0_def namespace_resource_p0_def
      deployment_resource_p0_def service_resource_p0_def)

subsection \<open>C2: merging the arguments over the defaults\<close>

text \<open>
  Claim C2, as stated: a nested object of the user arguments is merged key by key with the
  default nested object, so that a key it leaves out keeps its default. It fails: a
  service object without \<open>type\<close> leaves the resolved service type \<open>undefined\<close>, where
  the default is \<open>ClusterIP\<close>; in the second file a storage object without \<open>region\<close>
  is the resolved storage object, where the default has the region \<open>us-west-2\<close>.
\<close>

theorem nested_object_replaced_counterexample:
  "service_type (spread ChartMuseumDefaults
      (Some \<lparr>namespace = Absent, replicas = Absent, api = Absent, metrics = Absent,
             service = Value \<lparr>svc_type = Absent\<rparr>\<rparr>)) = None
   \<and> service_type ChartMuseumDefaults = Some ''ClusterIP''
   \<and> storage (spread_p0 ChartMuseumDefaults_p0
      (Some \<lparr>namespace = Absent, replicas = Absent, api = Absent, metrics = Absent,
             service = Absent,
             storage = Value \<lparr>st_cloud = Value ''amazon'', st_region = Absent\<rparr>\<rparr>))
       = Value \<lparr>st_cloud = Value ''amazon'', st_region = Absent\<rparr>
   \<and> storage ChartMuseumDefaults_p0
       = Value \<lparr>st_cloud = Value ''amazon'', st_region = Value ''us-west-2''\<rparr>"
  by (simp add: spread_def spread_p0_def ChartMuseumDefaults_def ChartMuseumDefaults_p0_def
      service_type_def)

text \<open>
  Claim C2, amended: the merge is shallow. Each top-level key that the user arguments have
  takes the user's value whole, nested objects included; a top-level key that the user
  arguments lack keeps its default; without user arguments the defaults are the result.
\<close>

theorem spread_is_shallow:
  "namespace (spread d (Some u)) = (if namespace u = Absent then namespace d else namespace u)
   \<and> replicas (spread d (Some u)) = (if replicas u = Absent then replicas d else replicas u)
   \<and> api (spread d (Some u)) = (if api u = Absent then api d else api u)
   \<and> metrics (spread d (Some u)) = (if metrics u = Absent then metrics d else metrics u)
   \<and> service (spread d (Some u)) = (if service u = Absent then service d else service u)
   \<and> spread d None = d
   \<and> storage (spread_p0 d0 (Some u0))
        = (if storage u0 = Absent then storage d0 else storage u0)
   \<and> service (spread_p0 d0 (Some u0))
        = (if service u0 = Absent then service d0 else service u0)
   \<and> spread_p0 d0 None = d0"
  by (simp add: spread_def spread_p0_def spread_field_eq)

theorem spread_is_shallow_witness:
  "namespace (spread ChartMuseumDefaults
      (Some \<lparr>namespace = Value ''charts'', replicas = Absent, api = Absent, metrics = Absent,
             service = Value \<lparr>svc_type = Absent\<rparr>\<rparr>)) = Value ''charts''
   \<and> replicas (spread ChartMuseumDefaults
      (Some \<lparr>namespace = Value ''charts'', replicas = Absent, api = Absent, metrics = Absent,
             service = Value \<lparr>svc_type = Absent\<rparr>\<rparr>)) = Value 1
   \<and> service (spread ChartMuseumDefaults
      (Some \<lparr>namespace = Value ''charts'', replicas = Absent, api = Absent, metrics = Absent,
             service = Value \<lparr>svc_type = Absent\<rparr>\<rparr>)) = Value \<lparr>svc_type = Absent\<rparr>"
  using spread_is_shallow [of ChartMuseumDefaults
      "\<lparr>namespace = Value ''charts'', replicas = Absent, api = Absent, metrics = Absent,
        service = Value \<lparr>svc_type = Absent\<rparr>\<rparr>" ChartMuseumDefaults_p0
      "\<lparr>namespace = Absent, replicas = Absent, api = Absent, metrics = Absent,
        service = Absent, storage = Absent\<rparr>"]
  by (simp add: ChartMuseumDefaults_def)

subsection \<open>C3: an unsupported provider\<close>

text \<open>
  Claim C3: with a provider identifier other than the supported one, \<open>aws\<close>, the
  composition fails with the error for an unsupported provider (the code throws
  \<open>RunError\<close> with the message \<open>Must specify a cloud provider\<close>), and the invocation
  declares no bucket, no credential principal, no policy, no access key and no secret:
  only the component and the namespace are declared. A composition has a name that is not
  empty: with the empty name no component comes to exist, whatever the provider
  (\<open>constructor_empty_name\<close>).
\<close>

theorem unsupported_provider_fails:
  assumes "provider \<noteq> ''aws''" and "name \<noteq> []"
  shows "fst (constructor provider region name args s0)
           = Inl (RunError ''Must specify a cloud provider'')
       \<and> map kind (declared s0 (constructor provider region name args s0))
           = [ChartMuseumComponent, Namespace]
       \<and> (\<forall>r \<in> set (declared s0 (constructor provider region name args s0)).
            kind r \<notin> {Bucket, User, UserPolicy, AccessKey, Secret})"
  using assms by (simp add: constructor_other declared_append resource_defs)

theorem unsupported_provider_fails_witness:
  "''gcp'' \<noteq> ''aws'' \<and> ''cm'' \<noteq> []
   \<and> fst (constructor ''gcp'' ''us-west-2'' ''cm'' None [])
           = Inl (RunError ''Must specify a cloud provider'')
   \<and> map kind (declared [] (constructor ''gcp'' ''us-west-2'' ''cm'' None []))
           = [ChartMuseumComponent, Namespace]"
  using unsupported_provider_fails [where provider = "''gcp''" and region = "''us-west-2''"
      and name = "''cm''" and args = None and ?s0.0 = "[]"]
  by simp

subsection \<open>C4: ownership\<close>

text \<open>
  Claim C4, as stated, has the access key owned by the top-level component itself. It
  fails: for the name \<open>cm\<close> the parent of the access key is the credential principal
  \<open>chartmuseum-cm-iam-user\<close>, not the component \<open>cm\<close>.
\<close>

theorem access_key_owner_counterexample:
  "map parent (resources_of_kind AccessKey
      (declared [] (constructor ''aws'' ''us-west-2'' ''cm'' None [])))
     = [Some (User, ''chartmuseum-cm-iam-user'')]
   \<and> Some (User, ''chartmuseum-cm-iam-user'') \<noteq> Some (ChartMuseumComponent, ''cm'')"
  by (simp add: constructor_aws declared_def Let_def resources_of_kind_def resource_defs)

text \<open>
  Claim C4, amended: for every successful composition the ownership relation is a tree
  rooted at the top-level component, without a cycle. The deployment, the service and the
  secret are owned by the namespace; the namespace, the bucket and the credential
  principal are owned by the component itself; the principal's policy and access key are
  owned by the principal.
\<close>

theorem ownership_tree:
  assumes "constructor provider region name args s0 = (Inr c, s)"
    and "g = declared s0 (constructor provider region name args s0)"
  shows "map kind g = [ChartMuseumComponent, Namespace, Bucket, User, UserPolicy, AccessKey,
                       Secret, Deployment, Service]
       \<and> distinct (map urn_of g)
       \<and> acyclic (owner_edges g)
       \<and> (\<forall>r \<in> set g. root_of (length g) g (urn_of r) = Some (ChartMuseumComponent, name))
       \<and> (\<forall>r \<in> set g. kind r = ChartMuseumComponent \<longrightarrow>
             urn_of r = (ChartMuseumComponent, name) \<and> parent r = None)
       \<and> (\<forall>r \<in> set g. kind r \<in> {Deployment, Service, Secret} \<longrightarrow>
             parent r = Some (urn_of (this_namespace c)))
       \<and> (\<forall>r \<in> set g. kind r \<in> {Namespace, Bucket, User} \<longrightarrow>
             parent r = Some (ChartMuseumComponent, name))
       \<and> (\<forall>r \<in> set g. kind r \<in> {UserPolicy, AccessKey} \<longrightarrow>
             (\<exists>u \<in> set g. kind u = User \<and> parent r = Some (urn_of u)))
       \<and> this_namespace c \<in> set g \<and> kind (this_namespace c) = Namespace"
proof -
  have p: "provider = ''aws''" using assms(1) by (rule constructor_Inr_aws)
  have n: "name \<noteq> []" using assms(1) by (rule constructor_Inr_name)
  let ?this = "(ChartMuseumComponent, name)"
  let ?args = "spread ChartMuseumDefaults args"
  let ?ns = "namespace_resource name ?args (labels_of name) ?this"
  let ?bucket = "bucket_resource name ?this"
  let ?user = "iam_user name ?this"
  let ?key = "access_key name ?user"
  let ?secret = "secret_resource name (labels_of name) ?ns ?key"
  have g: "g = [component_resource name, ?ns, ?bucket, ?user, iam_policy name ?user ?bucket,
                ?key, ?secret,
                deployment_resource name ?args (labels_of name) ?ns ?bucket
                  (deployment_env (js_String (js_not (read_field (api ?args))))
                     (js_String (js_not (read_field (metrics ?args)))) ''amazon'' region
                     ?bucket ?secret),
                service_resource name ?args (labels_of name) ?ns]"
    unfolding assms(2) p by (simp add: constructor_aws [OF n] declared_append Let_def)
  have ns: "this_namespace c = ?ns"
    using assms(1) unfolding p by (auto simp add: constructor_aws [OF n] Let_def)
  have 1: "map kind g = [ChartMuseumComponent, Namespace, Bucket, User, UserPolicy, AccessKey,
                       Secret, Deployment, Service]"
    unfolding g by (simp add: resource_defs)
  have 2: "distinct (map urn_of g)"
    unfolding g by (simp add: resource_defs)
  have 3: "acyclic (owner_edges g)"
    by (rule acyclic_by_depth) (simp add: g resource_defs)
  have 4: "\<forall>r \<in> set g. root_of (length g) g (urn_of r) = Some (ChartMuseumComponent, name)"
    unfolding g by (simp add: resource_defs)
  have 5: "\<forall>r \<in> set g. kind r = ChartMuseumComponent \<longrightarrow>
             urn_of r = (ChartMuseumComponent, name) \<and> parent r = None"
    unfolding g by (simp add: resource_defs)
  have 6: "\<forall>r \<in> set g. kind r \<in> {Deployment, Service, Secret} \<longrightarrow>
             parent r = Some (urn_of (this_namespace c))"
    unfolding g ns by (simp add: resource_defs)
  have 7: "\<forall>r \<in> set g. kind r \<in> {Namespace, Bucket, User} \<longrightarrow>
             parent r = Some (ChartMuseumComponent, name)"
    unfolding g by (simp add: resource_defs)
  have 8: "\<forall>r \<in> set g. kind r \<in> {UserPolicy, AccessKey} \<longrightarrow>
             (\<exists>u \<in> set g. kind u = User \<and> parent r = Some (urn_of u))"
    unfolding g by (simp add: resource_defs)
  have 9: "this_namespace c \<in> set g \<and> kind (this_namespace c) = Namespace"
    unfolding g ns by (simp add: resource_defs)
  from 1 2 3 4 5 6 7 8 9 show ?thesis by blast
qed

theorem ownership_tree_witness:
  "\<exists>c s. constructor ''aws'' ''us-west-2'' ''cm'' None [] = (Inr c, s)
     \<and> map kind s = [ChartMuseumComponent, Namespace, Bucket, User, UserPolicy, AccessKey,
                      Secret, Deployment, Service]
     \<and> distinct (map urn_of s)
     \<and> acyclic (owner_edges s)
     \<and> this_namespace c \<in> set s"
proof -
  obtain c s where h: "constructor ''aws'' ''us-west-2'' ''cm'' None [] = (Inr c, s)"
    using constructor_default_succeeds [of "''cm''"] by blast
  have g: "s = declared [] (constructor ''aws'' ''us-west-2'' ''cm'' None [])"
    by (simp add: h declared_def)
  note t = ownership_tree [OF h g]
  show ?thesis
  proof (intro exI conjI)
    show "constructor ''aws'' ''us-west-2'' ''cm'' None [] = (Inr c, s)" by (rule h)
  qed (use t in \<open>simp_all only: simp_thms\<close>)
qed

subsection \<open>C5: determinism\<close>

text \<open>
  Claim C5: two runs of the composition with identical provider, region, name and user
  arguments produce the same result and declare the same resources in the same order,
  whatever the registry held before each run. For a successful composition the graph both
  runs declare is the one written out here from the four inputs alone: the shape of each
  resource, every label set, and the environment list of the deployment in its order.
\<close>

theorem composition_deterministic:
  assumes "provider1 = provider2" and "region1 = region2" and "name1 = name2"
    and "args1 = args2"
  shows "fst (constructor provider1 region1 name1 args1 s1)
           = fst (constructor provider2 region2 name2 args2 s2)
       \<and> declared s1 (constructor provider1 region1 name1 args1 s1)
           = declared s2 (constructor provider2 region2 name2 args2 s2)
       \<and> (provider1 = ''aws'' \<and> name1 \<noteq> [] \<longrightarrow>
            map shape (declared s2 (constructor provider2 region2 name2 args2 s2)) =
              [(ChartMuseumComponent, name1, None, []),
               (Namespace, ''chartmuseum-'' @ name1 @ ''-namespace'',
                  Some (ChartMuseumComponent, name1), []),
               (Bucket, ''chartmuseum-'' @ name1 @ ''-bucket'',
                  Some (ChartMuseumComponent, name1), []),
               (User, ''chartmuseum-'' @ name1 @ ''-iam-user'',
                  Some (ChartMuseumComponent, name1), []),
               (UserPolicy, ''chartmuseum-'' @ name1 @ ''-iam-policy'',
                  Some (User, ''chartmuseum-'' @ name1 @ ''-iam-user''), []),
               (AccessKey, ''chartmuseum-'' @ name1 @ ''-iam-accesskey'',
                  Some (User, ''chartmuseum-'' @ name1 @ ''-iam-user''), []),
               (Secret, ''chartmuseum-'' @ name1 @ ''-secret'',
                  Some (Namespace, ''chartmuseum-'' @ name1 @ ''-namespace''), []),
               (Deployment, ''chartmuseum-'' @ name1 @ ''-deployment'',
                  Some (Namespace, ''chartmuseum-'' @ name1 @ ''-namespace''),
                  [(Bucket, ''chartmuseum-'' @ name1 @ ''-bucket'')]),
               (Service, ''chartmuseum-'' @ name1 @ ''-service'',
                  Some (Namespace, ''chartmuseum-'' @ name1 @ ''-namespace''), [])]
          \<and> map labels_in (declared s2 (constructor provider2 region2 name2 args2 s2)) =
              [[],
               [[(''app'', ''chartmuseum''), (''release'', name1)]],
               [], [], [], [],
               [[(''app'', ''chartmuseum''), (''release'', name1)]],
               [[(''app'', ''chartmuseum''), (''release'', name1)],
                [(''app'', ''chartmuseum''), (''release'', name1)],
                [(''app'', ''chartmuseum''), (''release'', name1)]],
               [[(''app'', ''chartmuseum''), (''release'', name1)],
                [(''app'', ''chartmuseum''), (''release'', name1)]]]
          \<and> concat (map deployment_envs
                (declared s2 (constructor provider2 region2 name2 args2 s2))) =
              [EnvValue ''DISABLE_API''
                 (Lit (if read_field (api (spread ChartMuseumDefaults args1)) = Some True
                       then ''false'' else ''true'')),
               EnvValue ''DISABLE_METRICS''
                 (Lit (if read_field (metrics (spread ChartMuseumDefaults args1)) = Some True
                       then ''false'' else ''true'')),
               EnvValue ''LOG_JSON'' (Lit ''true''),
               EnvValue ''PROV_POST_FORM_FIELD_NAME'' (Lit ''prov''),
               EnvValue ''STORAGE'' (Lit ''amazon''),
               EnvValue ''STORAGE_AMAZON_REGION'' (Lit region1),
               EnvValue ''STORAGE_AMAZON_BUCKET''
                 (Out (Bucket, ''chartmuseum-'' @ name1 @ ''-bucket'') ''bucket''),
               EnvSecretKeyRef ''AWS_ACCESS_KEY_ID''
                 (Out (Secret, ''chartmuseum-'' @ name1 @ ''-secret'') ''metadata.name'')
                 ''AWS_ACCESS_KEY_ID'',
               EnvSecretKeyRef ''AWS_SECRET_ACCESS_KEY''
                 (Out (Secret, ''chartmuseum-'' @ name1 @ ''-secret'') ''metadata.name'')
                 ''AWS_SECRET_ACCESS_KEY''])"
proof (intro conjI impI)
  show "fst (constructor provider1 region1 name1 args1 s1)
           = fst (constructor provider2 region2 name2 args2 s2)"
  proof (cases "name2 = []")
    case True
    with assms show ?thesis by (simp add: constructor_empty_name)
  next
    case n: False
    show ?thesis
    proof (cases "provider2 = ''aws''")
      case True
      with assms n show ?thesis by (simp add: constructor_aws Let_def)
    next
      case False
      with assms n show ?thesis by (simp add: constructor_other)
    qed
  qed
  show "declared s1 (constructor provider1 region1 name1 args1 s1)
           = declared s2 (constructor provider2 region2 name2 args2 s2)"
  proof (cases "name2 = []")
    case True
    with assms show ?thesis by (simp add: constructor_empty_name declared_def)
  next
    case n: False
    show ?thesis
    proof (cases "provider2 = ''aws''")
      case True
      with assms n show ?thesis by (simp add: constructor_aws declared_append Let_def)
    next
      case False
      with assms n show ?thesis by (simp add: constructor_other declared_append)
    qed
  qed
next
  assume h: "provider1 = ''aws'' \<and> name1 \<noteq> []"
  then have n: "name1 \<noteq> []" and p: "provider2 = ''aws''" using assms by simp_all
  have i: "name2 = name1" "region2 = region1" "args2 = args1" using assms by simp_all
  show "map shape (declared s2 (constructor provider2 region2 name2 args2 s2)) =
              [(ChartMuseumComponent, name1, None, []),
               (Namespace, ''chartmuseum-'' @ name1 @ ''-namespace'',
                  Some (ChartMuseumComponent, name1), []),
               (Bucket, ''chartmuseum-'' @ name1 @ ''-bucket'',
                  Some (ChartMuseumComponent, name1), []),
               (User, ''chartmuseum-'' @ name1 @ ''-iam-user'',
                  Some (ChartMuseumComponent, name1), []),
               (UserPolicy, ''chartmuseum-'' @ name1 @ ''-iam-policy'',
                  Some (User, ''chartmuseum-'' @ name1 @ ''-iam-user''), []),
               (AccessKey, ''chartmuseum-'' @ name1 @ ''-iam-accesskey'',
                  Some (User, ''chartmuseum-'' @ name1 @ ''-iam-user''), []),
               (Secret, ''chartmuseum-'' @ name1 @ ''-secret'',
                  Some (Namespace, ''chartmuseum-'' @ name1 @ ''-namespace''), []),
               (Deployment, ''chartmuseum-'' @ name1 @ ''-deployment'',
                  Some (Namespace, ''chartmuseum-'' @ name1 @ ''-namespace''),
                  [(Bucket, ''chartmuseum-'' @ name1 @ ''-bucket'')]),
               (Service, ''chartmuseum-'' @ name1 @ ''-service'',
                  Some (Namespace, ''chartmuseum-'' @ name1 @ ''-namespace''), [])]"
    unfolding p i
    by (simp add: constructor_aws [OF n] declared_append Let_def shape_def resource_defs)
  show "map labels_in (declared s2 (constructor provider2 region2 name2 args2 s2)) =
              [[],
               [[(''app'', ''chartmuseum''), (''release'', name1)]],
               [], [], [], [],
               [[(''app'', ''chartmuseum''), (''release'', name1)]],
               [[(''app'', ''chartmuseum''), (''release'', name1)],
                [(''app'', ''chartmuseum''), (''release'', name1)],
                [(''app'', ''chartmuseum''), (''release'', name1)]],
               [[(''app'', ''chartmuseum''), (''release'', name1)],
                [(''app'', ''chartmuseum''), (''release'', name1)]]]"
    unfolding p i
    by (simp add: constructor_aws [OF n] declared_append Let_def labels_in_def
        meta_label_sets_def labels_of_def resource_defs)
  have e: "\<And>x. js_String (js_not x) = (if x = Some True then ''false'' else ''true'')"
  proof -
    fix x :: "bool option"
    show "js_String (js_not x) = (if x = Some True then ''false'' else ''true'')"
      by (cases x) (simp_all add: js_String_def)
  qed
  show "concat (map deployment_envs
                (declared s2 (constructor provider2 region2 name2 args2 s2))) =
              [EnvValue ''DISABLE_API''
                 (Lit (if read_field (api (spread ChartMuseumDefaults args1)) = Some True
                       then ''false'' else ''true'')),
               EnvValue ''DISABLE_METRICS''
                 (Lit (if read_field (metrics (spread ChartMuseumDefaults args1)) = Some True
                       then ''false'' else ''true'')),
               EnvValue ''LOG_JSON'' (Lit ''true''),
               EnvValue ''PROV_POST_FORM_FIELD_NAME'' (Lit ''prov''),
               EnvValue ''STORAGE'' (Lit ''amazon''),
               EnvValue ''STORAGE_AMAZON_REGION'' (Lit region1),
               EnvValue ''STORAGE_AMAZON_BUCKET''
                 (Out (Bucket, ''chartmuseum-'' @ name1 @ ''-bucket'') ''bucket''),
               EnvSecretKeyRef ''AWS_ACCESS_KEY_ID''
                 (Out (Secret, ''chartmuseum-'' @ name1 @ ''-secret'') ''metadata.name'')
                 ''AWS_ACCESS_KEY_ID'',
               EnvSecretKeyRef ''AWS_SECRET_ACCESS_KEY''
                 (Out (Secret, ''chartmuseum-'' @ name1 @ ''-secret'') ''metadata.name'')
                 ''AWS_SECRET_ACCESS_KEY'']"
    unfolding p i
    by (simp add: constructor_aws [OF n] declared_append Let_def deployment_envs_def
        deployment_env_def toUpperCase_amazon e resource_defs)
qed

theorem composition_deterministic_witness:
  "''aws'' = ''aws'' \<and> ''us-west-2'' = ''us-west-2'' \<and> ''cm'' = ''cm''
   \<and> (None :: ChartMuseumArgs option) = None \<and> ''cm'' \<noteq> []
   \<and> fst (constructor ''aws'' ''us-west-2'' ''cm'' None [])
        = fst (constructor ''aws'' ''us-west-2'' ''cm'' None [component_resource ''other''])
   \<and> declared [] (constructor ''aws'' ''us-west-2'' ''cm'' None [])
        = declared [component_resource ''other'']
            (constructor ''aws'' ''us-west-2'' ''cm'' None [component_resource ''other''])
   \<and> map kind (declared [component_resource ''other'']
            (constructor ''aws'' ''us-west-2'' ''cm'' None [component_resource ''other'']))
        = [ChartMuseumComponent, Namespace, Bucket, User, UserPolicy, AccessKey, Secret,
           Deployment, Service]
   \<and> map env_name (concat (map deployment_envs (declared [component_resource ''other'']
            (constructor ''aws'' ''us-west-2'' ''cm'' None [component_resource ''other'']))))
        = [''DISABLE_API'', ''DISABLE_METRICS'', ''LOG_JSON'', ''PROV_POST_FORM_FIELD_NAME'',
           ''STORAGE'', ''STORAGE_AMAZON_REGION'', ''STORAGE_AMAZON_BUCKET'',
           ''AWS_ACCESS_KEY_ID'', ''AWS_SECRET_ACCESS_KEY'']"
proof -
  note t = composition_deterministic [of "''aws''" "''aws''" "''us-west-2''" "''us-west-2''"
      "''cm''" "''cm''" None None "[]" "[component_resource ''other'']", OF refl refl refl refl]
  have c: "''aws'' = ''aws'' \<and> ''cm'' \<noteq> []" by simp
  note t3 = t [THEN conjunct2, THEN conjunct2, THEN mp, OF c]
  have k: "map kind (declared [component_resource ''other'']
            (constructor ''aws'' ''us-west-2'' ''cm'' None [component_resource ''other'']))
        = map fst (map shape (declared [component_resource ''other'']
            (constructor ''aws'' ''us-west-2'' ''cm'' None [component_resource ''other''])))"
    by (simp add: shape_def comp_def)
  have 1: "map kind (declared [component_resource ''other'']
            (constructor ''aws'' ''us-west-2'' ''cm'' None [component_resource ''other'']))
        = [ChartMuseumComponent, Namespace, Bucket, User, UserPolicy, AccessKey, Secret,
           Deployment, Service]"
    unfolding k t3 [THEN conjunct1] by simp
  have 2: "map env_name (concat (map deployment_envs (declared [component_resource ''other'']
            (constructor ''aws'' ''us-west-2'' ''cm'' None [component_resource ''other'']))))
        = [''DISABLE_API'', ''DISABLE_METRICS'', ''LOG_JSON'', ''PROV_POST_FORM_FIELD_NAME'',
           ''STORAGE'', ''STORAGE_AMAZON_REGION'', ''STORAGE_AMAZON_BUCKET'',
           ''AWS_ACCESS_KEY_ID'', ''AWS_SECRET_ACCESS_KEY'']"
    unfolding t3 [THEN conjunct2, THEN conjunct2] by simp
  show ?thesis
    using t [THEN conjunct1] t [THEN conjunct2, THEN conjunct1] 1 2
    by (simp only: simp_thms list.distinct)
qed

subsection \<open>C6: the two DISABLE flags\<close>

text \<open>
  Claim C6: for every resolved configuration the value of \<open>DISABLE_API\<close> is the string
  \<open>false\<close> when the api flag is true and the string \<open>true\<close> when it is false, and
  \<open>DISABLE_METRICS\<close> does the same with the metrics flag.
\<close>

theorem disable_flags_inverted:
  assumes "constructor provider region name args s0 = (Inr c, s)"
    and "read_field (api (spread ChartMuseumDefaults args)) = Some a"
    and "read_field (metrics (spread ChartMuseumDefaults args)) = Some m"
  shows "this_args c = spread ChartMuseumDefaults args
       \<and> env_lookup ''DISABLE_API'' (deployment_envs (this_deployment c))
           = Some (EnvValue ''DISABLE_API'' (Lit (if a then ''false'' else ''true'')))
       \<and> env_lookup ''DISABLE_METRICS'' (deployment_envs (this_deployment c))
           = Some (EnvValue ''DISABLE_METRICS'' (Lit (if m then ''false'' else ''true'')))"
proof -
  have p: "provider = ''aws''" using assms(1) by (rule constructor_Inr_aws)
  have n: "name \<noteq> []" using assms(1) by (rule constructor_Inr_name)
  from assms show ?thesis unfolding p
    by (auto simp add: constructor_aws [OF n] Let_def deployment_envs_def deployment_resource_def
        deployment_env_def env_lookup_def js_String_def)
qed

theorem disable_flags_inverted_witness:
  "\<exists>c s. constructor ''aws'' ''us-west-2'' ''cm''
       (Some \<lparr>namespace = Absent, replicas = Absent, api = Value True, metrics = Value False,
              service = Absent\<rparr>) [] = (Inr c, s)
     \<and> env_lookup ''DISABLE_API'' (deployment_envs (this_deployment c))
           = Some (EnvValue ''DISABLE_API'' (Lit ''false''))
     \<and> env_lookup ''DISABLE_METRICS'' (deployment_envs (this_deployment c))
           = Some (EnvValue ''DISABLE_METRICS'' (Lit ''true''))"
proof -
  let ?u = "\<lparr>namespace = Absent, replicas = Absent, api = Value True, metrics = Value False,
              service = Absent\<rparr>"
  obtain c s where h: "constructor ''aws'' ''us-west-2'' ''cm'' (Some ?u) [] = (Inr c, s)"
    using constructor_default_succeeds [of "''cm''"] by blast
  have a: "read_field (api (spread ChartMuseumDefaults (Some ?u))) = Some True"
    by (simp add: spread_def)
  have m: "read_field (metrics (spread ChartMuseumDefaults (Some ?u))) = Some False"
    by (simp add: spread_def ChartMuseumDefaults_def)
  note t = disable_flags_inverted [OF h a m]
  show ?thesis
  proof (intro exI conjI)
    show "constructor ''aws'' ''us-west-2'' ''cm'' (Some ?u) [] = (Inr c, s)" by (rule h)
  qed (use t in \<open>simp_all only: simp_thms if_True if_False\<close>)
qed

subsection \<open>C7: the deployment depends on the bucket\<close>

text \<open>
  Claim C7: in every successful composition, of either file, the one deployment declared
  names the one bucket declared among its explicit dependencies.
\<close>

theorem deployment_depends_on_bucket:
  "(constructor provider region name args s0 = (Inr c, s) \<longrightarrow>
      resources_of_kind Deployment (declared s0 (constructor provider region name args s0))
        = [this_deployment c]
      \<and> resources_of_kind Bucket (declared s0 (constructor provider region name args s0))
        = [this_bucket c]
      \<and> urn_of (this_bucket c) \<in> set (dependsOn (this_deployment c)))
   \<and> (constructor_p0 name' args' s0' = (Inr c', s') \<longrightarrow>
      resources_of_kind Deployment (declared s0' (constructor_p0 name' args' s0'))
        = [p0_deployment c']
      \<and> resources_of_kind Bucket (declared s0' (constructor_p0 name' args' s0'))
        = [p0_bucket c']
      \<and> urn_of (p0_bucket c') \<in> set (dependsOn (p0_deployment c')))"
proof (intro conjI impI)
  assume h: "constructor provider region name args s0 = (Inr c, s)"
  have p: "provider = ''aws''" using h by (rule constructor_Inr_aws)
  have n: "name \<noteq> []" using h by (rule constructor_Inr_name)
  from h show "resources_of_kind Deployment
      (declared s0 (constructor provider region name args s0)) = [this_deployment c]"
    unfolding p
    by (auto simp add: constructor_aws [OF n] Let_def declared_def resources_of_kind_def resource_defs)
  from h show "resources_of_kind Bucket
      (declared s0 (constructor provider region name args s0)) = [this_bucket c]"
    unfolding p
    by (auto simp add: constructor_aws [OF n] Let_def declared_def resources_of_kind_def resource_defs)
  from h show "urn_of (this_bucket c) \<in> set (dependsOn (this_deployment c))"
    unfolding p
    by (auto simp add: constructor_aws [OF n] Let_def deployment_resource_def)
next
  assume h: "constructor_p0 name' args' s0' = (Inr c', s')"
  from constructor_p0_Inr [OF h] obtain envs where
    d: "p0_deployment c' = deployment_resource_p0 name' (p0_args c') (labels_of name')
               (p0_namespace c') (p0_bucket c') envs"
    and b: "p0_bucket c' = bucket_resource_p0 name' (ChartMuseumComponent, name')"
    and n: "p0_namespace c' = namespace_resource_p0 name' (p0_args c') (labels_of name')
               (ChartMuseumComponent, name')"
    and sv: "p0_service c' = service_resource_p0 name' (p0_args c') (labels_of name')
               (p0_namespace c')"
    and s': "s' = s0' @ [component_resource name', p0_bucket c', p0_namespace c',
                         p0_deployment c', p0_service c']"
    by blast
  have k: "kind (p0_deployment c') = Deployment" "kind (p0_bucket c') = Bucket"
    "kind (p0_namespace c') = Namespace" "kind (p0_service c') = Service"
    by (simp add: d deployment_resource_p0_def, simp add: b bucket_resource_p0_def,
        simp add: n namespace_resource_p0_def, simp add: sv service_resource_p0_def)
  show "resources_of_kind Deployment (declared s0' (constructor_p0 name' args' s0'))
        = [p0_deployment c']"
    by (simp add: h s' declared_def resources_of_kind_def k component_resource_def)
  show "resources_of_kind Bucket (declared s0' (constructor_p0 name' args' s0'))
        = [p0_bucket c']"
    by (simp add: h s' declared_def resources_of_kind_def k component_resource_def)
  show "urn_of (p0_bucket c') \<in> set (dependsOn (p0_deployment c'))"
    by (subst d) (simp add: deployment_resource_p0_def)
qed

theorem deployment_depends_on_bucket_witness:
  "(\<exists>c s. constructor ''aws'' ''us-west-2'' ''cm'' None [] = (Inr c, s)
       \<and> resources_of_kind Bucket s = [this_bucket c]
       \<and> urn_of (this_bucket c) \<in> set (dependsOn (this_deployment c)))
   \<and> (\<exists>c s. constructor_p0 ''cm'' None [] = (Inr c, s)
       \<and> resources_of_kind Bucket s = [p0_bucket c]
       \<and> urn_of (p0_bucket c) \<in> set (dependsOn (p0_deployment c)))"
proof -
  obtain c s where h: "constructor ''aws'' ''us-west-2'' ''cm'' None [] = (Inr c, s)"
    using constructor_default_succeeds [of "''cm''"] by blast
  obtain c' s' where h': "constructor_p0 ''cm'' None [] = (Inr c', s')"
    by (simp add: constructor_p0_default Let_def)
  note t = deployment_depends_on_bucket [of "''aws''" "''us-west-2''" "''cm''" None "[]" c s
      "''cm''" None "[]" c' s']
  note t1 = t [THEN conjunct1, THEN mp, OF h]
  note t2 = t [THEN conjunct2, THEN mp, OF h']
  have d: "declared [] (constructor ''aws'' ''us-west-2'' ''cm'' None []) = s"
    by (simp add: h declared_def)
  have d': "declared [] (constructor_p0 ''cm'' None []) = s'"
    by (simp add: h' declared_def)
  show ?thesis
  proof (intro conjI exI)
    show "constructor ''aws'' ''us-west-2'' ''cm'' None [] = (Inr c, s)" by (rule h)
    show "constructor_p0 ''cm'' None [] = (Inr c', s')" by (rule h')
  qed (use t1 t2 in \<open>simp_all only: d d' simp_thms\<close>)
qed

subsection \<open>C8: the selector of the service\<close>

text \<open>
  Claim C8: for every successful composition with the name \<open>n\<close>, the selector of the
  service is the label set of the deployment (its metadata labels, its match labels and
  its template labels), and both are \<open>app = chartmuseum\<close>, \<open>release = n\<close>.
\<close>

theorem service_selector_is_deployment_labels:
  assumes "constructor provider region name args s0 = (Inr c, s)"
  shows "\<exists>d sv. inputs (this_deployment c) = DeploymentInputs d
           \<and> inputs (this_service c) = ServiceInputs sv
           \<and> srv_selector sv = [(''app'', ''chartmuseum''), (''release'', name)]
           \<and> dep_matchLabels d = srv_selector sv
           \<and> meta_labels (dep_metadata d) = Some (srv_selector sv)
           \<and> meta_labels (dep_template_metadata d) = Some (srv_selector sv)
           \<and> this_deployment c \<in> set (declared s0 (constructor provider region name args s0))
           \<and> this_service c \<in> set (declared s0 (constructor provider region name args s0))"
proof -
  have p: "provider = ''aws''" using assms by (rule constructor_Inr_aws)
  have n: "name \<noteq> []" using assms by (rule constructor_Inr_name)
  from assms show ?thesis unfolding p
    by (auto simp add: constructor_aws [OF n] declared_append Let_def resource_defs labels_of_def)
qed

theorem service_selector_is_deployment_labels_witness:
  "\<exists>c s d sv. constructor ''aws'' ''us-west-2'' ''cm'' None [] = (Inr c, s)
     \<and> inputs (this_deployment c) = DeploymentInputs d
     \<and> inputs (this_service c) = ServiceInputs sv
     \<and> srv_selector sv = [(''app'', ''chartmuseum''), (''release'', ''cm'')]
     \<and> dep_matchLabels d = srv_selector sv"
proof -
  obtain c s where h: "constructor ''aws'' ''us-west-2'' ''cm'' None [] = (Inr c, s)"
    using constructor_default_succeeds [of "''cm''"] by blast
  from service_selector_is_deployment_labels [OF h] obtain d sv where
    1: "inputs (this_deployment c) = DeploymentInputs d"
    and 2: "inputs (this_service c) = ServiceInputs sv"
    and 3: "srv_selector sv = [(''app'', ''chartmuseum''), (''release'', ''cm'')]"
    and 4: "dep_matchLabels d = srv_selector sv"
    by (elim exE conjE)
  show ?thesis
    by (intro exI conjI) (rule h, rule 1, rule 2, rule 3, rule 4)
qed

subsection \<open>C9: the policy of the credential principal\<close>

text \<open>
  Claim C9: in every successful composition the one policy declared belongs to the one
  credential principal declared and is computed from the name of the one bucket declared.
  For every bucket name it has exactly two statements: \<open>s3:ListBucket\<close> on the bucket,
  and \<open>s3:DeleteObject\<close>, \<open>s3:GetObject\<close>, \<open>s3:PutObject\<close> on the objects of the
  bucket. No statement names a resource other than the bucket or its objects.
\<close>

theorem policy_least_privilege:
  assumes "constructor provider region name args s0 = (Inr c, s)"
    and "g = declared s0 (constructor provider region name args s0)"
  shows "\<exists>pol usr f.
           resources_of_kind UserPolicy g = [pol]
         \<and> resources_of_kind User g = [usr]
         \<and> resources_of_kind Bucket g = [this_bucket c]
         \<and> inputs pol = UserPolicyInputs (Out (urn_of usr) ''name'')
                            (Out (urn_of (this_bucket c)) ''bucket'') f
         \<and> (\<forall>b. Statements (f b) =
               [\<lparr>Sid = ''AllowListObjects'', Effect = ''Allow'',
                 Action = [''s3:ListBucket''],
                 Resource = ''arn:aws:s3:::'' @ b\<rparr>,
                \<lparr>Sid = ''AllowObjectsCRUD'', Effect = ''Allow'',
                 Action = [''s3:DeleteObject'', ''s3:GetObject'', ''s3:PutObject''],
                 Resource = ''arn:aws:s3:::'' @ b @ ''/*''\<rparr>])
         \<and> (\<forall>b. \<forall>st \<in> set (Statements (f b)).
               Resource st = ''arn:aws:s3:::'' @ b \<or> Resource st = ''arn:aws:s3:::'' @ b @ ''/*'')"
proof -
  have p: "provider = ''aws''" using assms(1) by (rule constructor_Inr_aws)
  have n: "name \<noteq> []" using assms(1) by (rule constructor_Inr_name)
  let ?this = "(ChartMuseumComponent, name)"
  let ?bucket = "bucket_resource name ?this"
  let ?user = "iam_user name ?this"
  have b: "this_bucket c = ?bucket"
    using assms(1) unfolding p by (auto simp add: constructor_aws [OF n] Let_def)
  have 1: "resources_of_kind UserPolicy g = [iam_policy name ?user ?bucket]"
    unfolding assms(2) p
    by (simp add: constructor_aws [OF n] declared_def Let_def resources_of_kind_def resource_defs)
  have 2: "resources_of_kind User g = [?user]"
    unfolding assms(2) p
    by (simp add: constructor_aws [OF n] declared_def Let_def resources_of_kind_def resource_defs)
  have 3: "resources_of_kind Bucket g = [this_bucket c]"
    unfolding assms(2) p b
    by (simp add: constructor_aws [OF n] declared_def Let_def resources_of_kind_def resource_defs)
  have 4: "inputs (iam_policy name ?user ?bucket) =
      UserPolicyInputs (Out (urn_of ?user) ''name'') (Out (urn_of (this_bucket c)) ''bucket'')
        policy_document"
    unfolding b by (simp add: iam_policy_def)
  have 5: "\<forall>b. Statements (policy_document b) =
               [\<lparr>Sid = ''AllowListObjects'', Effect = ''Allow'',
                 Action = [''s3:ListBucket''],
                 Resource = ''arn:aws:s3:::'' @ b\<rparr>,
                \<lparr>Sid = ''AllowObjectsCRUD'', Effect = ''Allow'',
                 Action = [''s3:DeleteObject'', ''s3:GetObject'', ''s3:PutObject''],
                 Resource = ''arn:aws:s3:::'' @ b @ ''/*''\<rparr>]"
    by (simp add: policy_document_def)
  have 6: "\<forall>b. \<forall>st \<in> set (Statements (policy_document b)).
               Resource st = ''arn:aws:s3:::'' @ b \<or> Resource st = ''arn:aws:s3:::'' @ b @ ''/*''"
    by (simp add: policy_document_def)
  show ?thesis
    by (intro exI conjI) (rule 1, rule 2, rule 3, rule 4, rule 5, rule 6)
qed

theorem policy_least_privilege_witness:
  "\<exists>c s pol f. constructor ''aws'' ''us-west-2'' ''cm'' None [] = (Inr c, s)
     \<and> resources_of_kind UserPolicy s = [pol]
     \<and> inputs pol = UserPolicyInputs (Out (User, ''chartmuseum-cm-iam-user'') ''name'')
                            (Out (urn_of (this_bucket c)) ''bucket'') f
     \<and> map Resource (Statements (f ''charts''))
          = [''arn:aws:s3:::charts'', ''arn:aws:s3:::charts/*'']"
proof -
  obtain c s where h: "constructor ''aws'' ''us-west-2'' ''cm'' None [] = (Inr c, s)"
    using constructor_default_succeeds [of "''cm''"] by blast
  have g: "s = declared [] (constructor ''aws'' ''us-west-2'' ''cm'' None [])"
    by (simp add: h declared_def)
  from policy_least_privilege [OF h g] obtain pol usr f where
    1: "resources_of_kind UserPolicy s = [pol]"
    and 2: "resources_of_kind User s = [usr]"
    and 4: "inputs pol = UserPolicyInputs (Out (urn_of usr) ''name'')
                            (Out (urn_of (this_bucket c)) ''bucket'') f"
    and 5: "\<forall>b. Statements (f b) =
               [\<lparr>Sid = ''AllowListObjects'', Effect = ''Allow'',
                 Action = [''s3:ListBucket''],
                 Resource = ''arn:aws:s3:::'' @ b\<rparr>,
                \<lparr>Sid = ''AllowObjectsCRUD'', Effect = ''Allow'',
                 Action = [''s3:DeleteObject'', ''s3:GetObject'', ''s3:PutObject''],
                 Resource = ''arn:aws:s3:::'' @ b @ ''/*''\<rparr>]"
    by (elim exE conjE)
  have u: "resources_of_kind User s = [iam_user ''cm'' (ChartMuseumComponent, ''cm'')]"
    unfolding g
    by (simp add: constructor_aws declared_def Let_def resources_of_kind_def resource_defs)
  have usr0: "usr = iam_user ''cm'' (ChartMuseumComponent, ''cm'')"
    using 2 u by simp
  have usr: "urn_of usr = (User, ''chartmuseum-cm-iam-user'')"
    unfolding usr0 by (simp add: iam_user_def urn_of_def)
  have 7: "map Resource (Statements (f ''charts''))
          = [''arn:aws:s3:::charts'', ''arn:aws:s3:::charts/*'']"
    by (simp add: 5)
  show ?thesis
    by (intro exI conjI) (rule h, rule 1, rule 4 [unfolded usr], rule 7)
qed

subsection \<open>C10: a key given as undefined\<close>

text \<open>For contrast: user arguments without the key \<open>service\<close> keep the default type.\<close>

lemma absent_service_keeps_default:
  "service u = Absent \<Longrightarrow> service_type (spread ChartMuseumDefaults (Some u)) = Some ''ClusterIP''"
  by (simp add: spread_def ChartMuseumDefaults_def service_type_def)

text \<open>
  Claim C10: a key that the user arguments have with the value \<open>undefined\<close> overrides
  the default. With \<open>service: undefined\<close> the resolved service object is \<open>undefined\<close> and
  the type of the service resource is unset; with \<open>api: undefined\<close> the resolved flag is
  \<open>undefined\<close> and \<open>DISABLE_API\<close> is the string \<open>true\<close>.
\<close>

theorem explicit_undefined_overrides_default:
  assumes "constructor provider region name (Some u) s0 = (Inr c, s)"
  shows "(service u = Undefined \<longrightarrow>
            service (this_args c) = Undefined
          \<and> (\<exists>sv. inputs (this_service c) = ServiceInputs sv \<and> srv_type sv = None))
       \<and> (api u = Undefined \<longrightarrow>
            api (this_args c) = Undefined
          \<and> env_lookup ''DISABLE_API'' (deployment_envs (this_deployment c))
              = Some (EnvValue ''DISABLE_API'' (Lit ''true'')))"
proof -
  have p: "provider = ''aws''" using assms(1) by (rule constructor_Inr_aws)
  have n: "name \<noteq> []" using assms(1) by (rule constructor_Inr_name)
  let ?args = "spread ChartMuseumDefaults (Some u)"
  have a: "this_args c = ?args"
    using assms(1) unfolding p by (auto simp add: constructor_aws [OF n] Let_def)
  have sv: "inputs (this_service c) = inputs (service_resource name ?args (labels_of name)
      (namespace_resource name ?args (labels_of name) (ChartMuseumComponent, name)))"
    using assms(1) unfolding p by (auto simp add: constructor_aws [OF n] Let_def)
  have e: "env_lookup ''DISABLE_API'' (deployment_envs (this_deployment c))
      = Some (EnvValue ''DISABLE_API'' (Lit (js_String (js_not (read_field (api ?args))))))"
    using assms(1) unfolding p
    by (auto simp add: constructor_aws [OF n] Let_def deployment_envs_def deployment_resource_def
        deployment_env_def env_lookup_def)
  have 1: "service u = Undefined \<Longrightarrow> service ?args = Undefined"
    by (simp add: spread_def)
  have 2: "service u = Undefined \<Longrightarrow> service_type ?args = None"
    by (simp add: spread_def service_type_def)
  have 3: "api u = Undefined \<Longrightarrow> api ?args = Undefined"
    by (simp add: spread_def)
  show ?thesis
    unfolding a sv e
    by (simp add: 1 2 3 service_resource_def js_String_def)
qed

theorem explicit_undefined_overrides_default_witness:
  "\<exists>c s sv. constructor ''aws'' ''us-west-2'' ''cm''
       (Some \<lparr>namespace = Absent, replicas = Absent, api = Undefined, metrics = Absent,
              service = Undefined\<rparr>) [] = (Inr c, s)
     \<and> service (this_args c) = Undefined
     \<and> inputs (this_service c) = ServiceInputs sv \<and> srv_type sv = None
     \<and> api (this_args c) = Undefined
     \<and> env_lookup ''DISABLE_API'' (deployment_envs (this_deployment c))
              = Some (EnvValue ''DISABLE_API'' (Lit ''true''))"
proof -
  let ?u = "\<lparr>namespace = Absent, replicas = Absent, api = Undefined, metrics = Absent,
              service = Undefined\<rparr>"
  obtain c s where h: "constructor ''aws'' ''us-west-2'' ''cm'' (Some ?u) [] = (Inr c, s)"
    using constructor_default_succeeds [of "''cm''"] by blast
  have su: "service ?u = Undefined" and au: "api ?u = Undefined"
    by simp_all
  note t = explicit_undefined_overrides_default [OF h]
  note t1 = t [THEN conjunct1, THEN mp, OF su]
  note t2 = t [THEN conjunct2, THEN mp, OF au]
  from t1 obtain sv where sv: "inputs (this_service c) = ServiceInputs sv" "srv_type sv = None"
    by (elim exE conjE)
  show ?thesis
    by (intro exI conjI)
      (rule h, rule t1 [THEN conjunct1], rule sv(1), rule sv(2), rule t2 [THEN conjunct1],
       rule t2 [THEN conjunct2])
qed

end
